theory Spec2Isabelle
  imports Main
begin

section \<open>Data model\<close>

text \<open>
  The module \<^verbatim>\<open>bottle_couchdb.py\<close> defines one class, \<^verbatim>\<open>CouchDBPlugin\<close>, with the
  methods \<^verbatim>\<open>__init__\<close>, \<^verbatim>\<open>get_server\<close>, \<^verbatim>\<open>get_database\<close>, \<^verbatim>\<open>setup\<close>, \<^verbatim>\<open>apply\<close>
  (with its inner function \<^verbatim>\<open>wrapper\<close>) and \<^verbatim>\<open>close\<close>. Exceptions are values of the
  type \<open>error\<close>; a method that can raise returns \<open>error + 'a\<close>, with \<open>Inl\<close> the
  exception.
\<close>

datatype error =
  PluginError string
  | TypeError string
  | ClientError string
  | HandlerError string

text \<open>The attributes that \<^verbatim>\<open>__init__\<close> stores on the instance.\<close>

record couchdb_plugin =
  server_name :: string
  db_name :: string
  keyword :: string

text \<open>
  An entry of \<^verbatim>\<open>app.plugins\<close>: an instance of \<^verbatim>\<open>CouchDBPlugin\<close> (the case that
  \<^verbatim>\<open>isinstance(other, CouchDBPlugin)\<close> accepts) or a plugin of another class, of which
  only a name is kept.
\<close>

datatype plugin = CouchDBPlugin couchdb_plugin | OtherPlugin string

record app =
  plugins :: "plugin list"

text \<open>
  The operations that the module performs on the couchdb client library, in the order it
  performs them, and the calls it makes to a route callback. \<open>'s\<close> is the type of
  server handles.
\<close>

datatype 's event =
  Connect string
  | Contains 's string
  | Create 's string
  | GetItem 's string
  | Called

text \<open>
  The program state: the plugin instance \<^verbatim>\<open>self\<close> (a mutable Python object, so every
  method receives it in the state and returns it in the state), the state \<open>'w\<close> of
  everything outside the module (the couchdb servers, the application's own data), and
  the trace of events so far.
\<close>

record ('w, 's) state =
  self :: couchdb_plugin
  world :: 'w
  trace :: "'s event list"

text \<open>
  The couchdb client library is not part of the module; it is a parameter. Its four
  operations that the module uses are \<^verbatim>\<open>couchdb.Server(url)\<close>, \<^verbatim>\<open>name in server\<close>,
  \<^verbatim>\<open>server.create(name)\<close> and \<^verbatim>\<open>server[name]\<close>. Each may raise and may change the
  world. \<open>'v\<close> is the type of Python values that callbacks receive and return; a
  database handle is such a value.
\<close>

record ('w, 's, 'v) client =
  couch_Server :: "string \<Rightarrow> 'w \<Rightarrow> (error + 's) \<times> 'w"
  couch_contains :: "'s \<Rightarrow> string \<Rightarrow> 'w \<Rightarrow> (error + bool) \<times> 'w"
  couch_create :: "'s \<Rightarrow> string \<Rightarrow> 'w \<Rightarrow> (error + 'v) \<times> 'w"
  couch_getitem :: "'s \<Rightarrow> string \<Rightarrow> 'w \<Rightarrow> (error + 'v) \<times> 'w"

text \<open>
  What \<^verbatim>\<open>inspect.getargspec\<close> reports of a function: the names of its formal
  parameters, the name of its \<^verbatim>\<open>*args\<close> parameter and the name of its \<^verbatim>\<open>**kwargs\<close>
  parameter, when it has them.
\<close>

record argspec =
  args :: "string list"
  varargs :: "string option"
  varkw :: "string option"

text \<open>
  A callable: \<open>spec\<close> is its argument specification (\<open>None\<close> for a callable that is
  not a Python function, on which \<^verbatim>\<open>inspect.getargspec\<close> raises \<^verbatim>\<open>TypeError\<close>), and
  \<open>call\<close> is what calling it with positional and keyword arguments does: it returns a
  value or raises, and may change the world.
\<close>

record ('w, 'v) callback =
  spec :: "argspec option"
  call :: "'v list \<Rightarrow> (string \<rightharpoonup> 'v) \<Rightarrow> 'w \<Rightarrow> (error + 'v) \<times> 'w"

text \<open>
  The route context that the framework passes to \<^verbatim>\<open>apply\<close>: \<^verbatim>\<open>context.config\<close>, a
  dictionary whose entry \<^verbatim>\<open>'couchdb'\<close> is a dictionary of strings, and
  \<^verbatim>\<open>context.callback\<close>, the route's callback as the application registered it.
\<close>

record ('w, 'v) route_context =
  config :: "string \<rightharpoonup> (string \<rightharpoonup> string)"
  ctx_callback :: "('w, 'v) callback"

text \<open>
  The variables that the inner function \<^verbatim>\<open>wrapper\<close> captures from the call of
  \<^verbatim>\<open>apply\<close> that made it (it also captures \<^verbatim>\<open>self\<close>, which is in the state).
\<close>

record ('w, 'v) closure =
  cl_server_name :: string
  cl_db_name :: string
  cl_keyword :: string
  cl_callback :: "('w, 'v) callback"

text \<open>
  What \<^verbatim>\<open>apply\<close> returns: the object \<^verbatim>\<open>callback\<close> that it was given, or a new function
  \<^verbatim>\<open>wrapper\<close>.
\<close>

datatype ('w, 'v) route_callback =
  Callback "('w, 'v) callback"
  | Wrapper "('w, 'v) closure"

section \<open>The client library's operations, recorded in the trace\<close>

definition Server :: "('w, 's, 'v) client \<Rightarrow> string \<Rightarrow> ('w, 's) state \<Rightarrow> (error + 's) \<times> ('w, 's) state" where
  "Server cl url st =
     (case couch_Server cl url (world st) of
        (r, w) \<Rightarrow> (r, st\<lparr>world := w, trace := trace st @ [Connect url]\<rparr>))"

definition contains :: "('w, 's, 'v) client \<Rightarrow> 's \<Rightarrow> string \<Rightarrow> ('w, 's) state \<Rightarrow> (error + bool) \<times> ('w, 's) state" where
  "contains cl server name st =
     (case couch_contains cl server name (world st) of
        (r, w) \<Rightarrow> (r, st\<lparr>world := w, trace := trace st @ [Contains server name]\<rparr>))"

definition create :: "('w, 's, 'v) client \<Rightarrow> 's \<Rightarrow> string \<Rightarrow> ('w, 's) state \<Rightarrow> (error + 'v) \<times> ('w, 's) state" where
  "create cl server name st =
     (case couch_create cl server name (world st) of
        (r, w) \<Rightarrow> (r, st\<lparr>world := w, trace := trace st @ [Create server name]\<rparr>))"

definition getitem :: "('w, 's, 'v) client \<Rightarrow> 's \<Rightarrow> string \<Rightarrow> ('w, 's) state \<Rightarrow> (error + 'v) \<times> ('w, 's) state" where
  "getitem cl server name st =
     (case couch_getitem cl server name (world st) of
        (r, w) \<Rightarrow> (r, st\<lparr>world := w, trace := trace st @ [GetItem server name]\<rparr>))"

text \<open>Calling a callable: \<^verbatim>\<open>callback(*args, **kwargs)\<close>.\<close>

definition invoke :: "('w, 'v) callback \<Rightarrow> 'v list \<Rightarrow> (string \<rightharpoonup> 'v) \<Rightarrow> ('w, 's) state \<Rightarrow> (error + 'v) \<times> ('w, 's) state" where
  "invoke f a kwargs st =
     (case call f a kwargs (world st) of
        (r, w) \<Rightarrow> (r, st\<lparr>world := w, trace := trace st @ [Called]\<rparr>))"

text \<open>
  \<^verbatim>\<open>inspect.getargspec(f)\<close>: the argument specification of a Python function,
  \<^verbatim>\<open>TypeError\<close> for any other callable.
\<close>

definition getargspec :: "('w, 'v) callback \<Rightarrow> error + argspec" where
  "getargspec f =
     (case spec f of
        None \<Rightarrow> Inl (TypeError ''arg is not a Python function'')
      | Some a \<Rightarrow> Inr a)"

text \<open>\<^verbatim>\<open>d.get(key, default)\<close> on a dictionary.\<close>

definition dict_get :: "('k \<rightharpoonup> 'a) \<Rightarrow> 'k \<Rightarrow> 'a \<Rightarrow> 'a" where
  "dict_get d k dflt = (case d k of None \<Rightarrow> dflt | Some v \<Rightarrow> v)"

section \<open>The class CouchDBPlugin\<close>

text \<open>
  \<^verbatim>\<open>__init__(self, db_name, server_name='', keyword='db')\<close>. An optional parameter is
  \<open>None\<close> when the caller leaves it out. The body has three assignments and no
  \<^verbatim>\<open>raise\<close>.
\<close>

definition init :: "string \<Rightarrow> string option \<Rightarrow> string option \<Rightarrow> error + couchdb_plugin" where
  "init dbn sn kw =
     Inr \<lparr>server_name = (case sn of None \<Rightarrow> '''' | Some s \<Rightarrow> s),
          db_name = dbn,
          keyword = (case kw of None \<Rightarrow> ''db'' | Some k \<Rightarrow> k)\<rparr>"

text \<open>\<^verbatim>\<open>get_server(self, server_name=None)\<close>.\<close>

definition get_server :: "('w, 's, 'v) client \<Rightarrow> string option \<Rightarrow> ('w, 's) state \<Rightarrow> (error + 's) \<times> ('w, 's) state" where
  "get_server cl sn st =
     (let sn' = (case sn of None \<Rightarrow> server_name (self st) | Some s \<Rightarrow> s)
      in Server cl sn' st)"

text \<open>\<^verbatim>\<open>get_database(self, db_name=None, server=None, server_name=None)\<close>.\<close>

definition get_database :: "('w, 's, 'v) client \<Rightarrow> string option \<Rightarrow> 's option \<Rightarrow> string option \<Rightarrow> ('w, 's) state \<Rightarrow> (error + 'v) \<times> ('w, 's) state" where
  "get_database cl dbn server sn st =
     (let dbn' = (case dbn of None \<Rightarrow> db_name (self st) | Some d \<Rightarrow> d)
      in case (case server of
                 None \<Rightarrow> get_server cl sn st
               | Some s \<Rightarrow> (Inr s, st)) of
           (Inl e, st1) \<Rightarrow> (Inl e, st1)
         | (Inr server', st1) \<Rightarrow>
             (case contains cl server' dbn' st1 of
                (Inl e, st2) \<Rightarrow> (Inl e, st2)
              | (Inr present, st2) \<Rightarrow>
                  if \<not> present then create cl server' dbn' st2
                  else getitem cl server' dbn' st2))"

text \<open>
  \<^verbatim>\<open>setup(self, app)\<close>: the loop over \<^verbatim>\<open>app.plugins\<close>, which raises at the first
  instance of the class whose keyword equals this one's.
\<close>

fun setup_loop :: "plugin list \<Rightarrow> ('w, 's) state \<Rightarrow> (error + unit) \<times> ('w, 's) state" where
  "setup_loop [] st = (Inr (), st)"
| "setup_loop (OtherPlugin n # rest) st = setup_loop rest st"
| "setup_loop (CouchDBPlugin other # rest) st =
     (if keyword other = keyword (self st)
      then (Inl (PluginError ''Found another couchdb plugin with conflicting settings (non-unique keyword).''), st)
      else setup_loop rest st)"

definition setup_plugin :: "app \<Rightarrow> ('w, 's) state \<Rightarrow> (error + unit) \<times> ('w, 's) state" where
  "setup_plugin a st = setup_loop (plugins a) st"

text \<open>The inner function \<^verbatim>\<open>wrapper(*args, **kwargs)\<close> of \<^verbatim>\<open>apply\<close>.\<close>

definition wrapper :: "('w, 's, 'v) client \<Rightarrow> ('w, 'v) closure \<Rightarrow> 'v list \<Rightarrow> (string \<rightharpoonup> 'v) \<Rightarrow> ('w, 's) state \<Rightarrow> (error + 'v) \<times> ('w, 's) state" where
  "wrapper cl c a kwargs st =
     (case get_server cl (Some (cl_server_name c)) st of
        (Inl e, st1) \<Rightarrow> (Inl e, st1)
      | (Inr couch, st1) \<Rightarrow>
          (case get_database cl (Some (cl_db_name c)) (Some couch) None st1 of
             (Inl e, st2) \<Rightarrow> (Inl e, st2)
           | (Inr db, st2) \<Rightarrow>
               invoke (cl_callback c) a (kwargs(cl_keyword c \<mapsto> db)) st2))"

text \<open>
  \<^verbatim>\<open>apply(self, callback, context)\<close>. \<^verbatim>\<open>context.config.get('couchdb') or {}\<close> is the
  entry when there is one and it is not empty, and an empty dictionary otherwise; an
  empty entry and the empty dictionary that replaces it are the same map.
\<close>

definition apply_plugin :: "('w, 'v) callback \<Rightarrow> ('w, 'v) route_context \<Rightarrow> ('w, 's) state \<Rightarrow> (error + ('w, 'v) route_callback) \<times> ('w, 's) state" where
  "apply_plugin f ctx st =
     (let conf = (case config ctx ''couchdb'' of None \<Rightarrow> Map.empty | Some d \<Rightarrow> d);
          sn = dict_get conf ''server_name'' (server_name (self st));
          dbn = dict_get conf ''db_name'' (db_name (self st));
          kw = dict_get conf ''keyword'' (keyword (self st))
      in case getargspec (ctx_callback ctx) of
           Inl e \<Rightarrow> (Inl e, st)
         | Inr sp \<Rightarrow>
             if kw \<notin> set (args sp) then (Inr (Callback f), st)
             else (Inr (Wrapper \<lparr>cl_server_name = sn, cl_db_name = dbn,
                                 cl_keyword = kw, cl_callback = f\<rparr>), st))"

text \<open>\<^verbatim>\<open>close(self)\<close>: the body is \<^verbatim>\<open>pass\<close>.\<close>

definition close :: "('w, 's) state \<Rightarrow> unit \<times> ('w, 's) state" where
  "close st = ((), st)"

text \<open>
  The framework calling what \<^verbatim>\<open>apply\<close> returned, once per request: the callback
  itself, or \<^verbatim>\<open>wrapper\<close>.
\<close>

fun call_route :: "('w, 's, 'v) client \<Rightarrow> ('w, 'v) route_callback \<Rightarrow> 'v list \<Rightarrow> (string \<rightharpoonup> 'v) \<Rightarrow> ('w, 's) state \<Rightarrow> (error + 'v) \<times> ('w, 's) state" where
  "call_route cl (Callback f) a kwargs st = invoke f a kwargs st"
| "call_route cl (Wrapper c) a kwargs st = wrapper cl c a kwargs st"

section \<open>A concrete client, callbacks and states\<close>

text \<open>
  A small client on which the theorems below are run: the world is the list of
  (server, database) pairs that exist, a server handle is the server's address, and a
  database handle is the string \<open>address/name\<close>. The server \<open>''http://down:5984''\<close>
  refuses connections, the membership test of the empty name is a bad request,
  \<open>''Bad''\<close> is an illegal name for a new database, and the database \<open>''_users''\<close>
  may not be opened.
\<close>

definition example_client :: "((string \<times> string) list, string, string) client" where
  "example_client =
     \<lparr>couch_Server = (\<lambda>url w.
        if url = ''http://down:5984'' then (Inl (ClientError ''connection refused''), w)
        else (Inr url, w)),
      couch_contains = (\<lambda>server name w.
        if name = '''' then (Inl (ClientError ''bad request''), w)
        else (Inr ((server, name) \<in> set w), w)),
      couch_create = (\<lambda>server name w.
        if name = ''Bad'' then (Inl (ClientError ''illegal database name''), w)
        else (Inr (server @ ''/'' @ name), (server, name) # w)),
      couch_getitem = (\<lambda>server name w.
        if name = ''_users'' then (Inl (ClientError ''unauthorized''), w)
        else if (server, name) \<in> set w then (Inr (server @ ''/'' @ name), w)
        else (Inl (ClientError ''not_found''), w))\<rparr>"

text \<open>
  The plugin of the module's usage example, \<^verbatim>\<open>Plugin('my_db',
  server_name='http://localhost:5984')\<close>, and a state that holds it, with no database on
  any server.
\<close>

definition example_plugin :: couchdb_plugin where
  "example_plugin =
     \<lparr>server_name = ''http://localhost:5984'', db_name = ''my_db'', keyword = ''db''\<rparr>"

definition example_state :: "((string \<times> string) list, string) state" where
  "example_state = \<lparr>self = example_plugin, world = [], trace = []\<rparr>"

text \<open>
  \<^verbatim>\<open>def show(item, db)\<close>, which returns the handle it was given followed by the item;
  \<^verbatim>\<open>def show_item(item)\<close>, which accepts no keyword argument and returns the item; and
  \<^verbatim>\<open>def show_any(item, **kw)\<close>, which returns the item followed by the \<^verbatim>\<open>db\<close> entry of
  \<^verbatim>\<open>kw\<close> when there is one.
\<close>

definition show_db :: "((string \<times> string) list, string) callback" where
  "show_db =
     \<lparr>spec = Some \<lparr>args = [''item'', ''db''], varargs = None, varkw = None\<rparr>,
      call = (\<lambda>a kwargs w.
        case kwargs ''db'' of
          None \<Rightarrow> (Inl (TypeError ''show() takes exactly 2 arguments''), w)
        | Some d \<Rightarrow> (Inr (d @ '':'' @ concat a), w))\<rparr>"

definition show_item :: "((string \<times> string) list, string) callback" where
  "show_item =
     \<lparr>spec = Some \<lparr>args = [''item''], varargs = None, varkw = None\<rparr>,
      call = (\<lambda>a kwargs w.
        case kwargs ''db'' of
          None \<Rightarrow> (Inr (concat a), w)
        | Some d \<Rightarrow> (Inl (TypeError ''show_item() got an unexpected keyword argument''), w))\<rparr>"

definition show_any :: "((string \<times> string) list, string) callback" where
  "show_any =
     \<lparr>spec = Some \<lparr>args = [''item''], varargs = None, varkw = Some ''kw''\<rparr>,
      call = (\<lambda>a kwargs w.
        case kwargs ''db'' of
          None \<Rightarrow> (Inr (concat a), w)
        | Some d \<Rightarrow> (Inr (concat a @ '':'' @ d), w))\<rparr>"

text \<open>
  The closure that \<^verbatim>\<open>apply\<close> makes for \<^verbatim>\<open>show\<close> under the example plugin, and two
  more callbacks: \<^verbatim>\<open>def list_docs(database)\<close> and \<^verbatim>\<open>def show_page(item, db, page)\<close>.
\<close>

definition example_closure :: "((string \<times> string) list, string) closure" where
  "example_closure =
     \<lparr>cl_server_name = ''http://localhost:5984'', cl_db_name = ''my_db'',
      cl_keyword = ''db'', cl_callback = show_db\<rparr>"

definition list_docs :: "((string \<times> string) list, string) callback" where
  "list_docs =
     \<lparr>spec = Some \<lparr>args = [''database''], varargs = None, varkw = None\<rparr>,
      call = (\<lambda>a kwargs w.
        case kwargs ''database'' of
          None \<Rightarrow> (Inl (TypeError ''list_docs() takes exactly 1 argument''), w)
        | Some d \<Rightarrow> (Inr (d @ ''/_all_docs''), w))\<rparr>"

definition show_page :: "((string \<times> string) list, string) callback" where
  "show_page =
     \<lparr>spec = Some \<lparr>args = [''item'', ''db'', ''page''], varargs = None, varkw = None\<rparr>,
      call = (\<lambda>a kwargs w.
        case (kwargs ''db'', kwargs ''page'') of
          (Some d, Some p) \<Rightarrow> (Inr (d @ '':'' @ concat a @ ''?page='' @ p), w)
        | _ \<Rightarrow> (Inl (TypeError ''show_page() takes exactly 3 arguments''), w))\<rparr>"

section \<open>Auxiliary facts\<close>

lemma get_server_given: "get_server cl (Some sn) st = Server cl sn st"
  by (simp add: get_server_def)

lemma wrapper_resolved:
  assumes "cl_server_name c = sn" and "cl_db_name c = dbn"
    and "couch_Server cl sn (world st) = (Inr srv, w1)"
    and "couch_contains cl srv dbn w1 = (Inr present, w2)"
    and "(if present then couch_getitem cl srv dbn w2 else couch_create cl srv dbn w2)
         = (Inr db, w3)"
  shows "wrapper cl c a kwargs st =
         invoke (cl_callback c) a (kwargs(cl_keyword c \<mapsto> db))
           (st\<lparr>world := w3,
               trace := trace st @
                 [Connect sn, Contains srv dbn,
                  if present then GetItem srv dbn else Create srv dbn]\<rparr>)"
  using assms
  by (cases present)
     (simp_all add: wrapper_def get_server_def get_database_def Server_def contains_def
        create_def getitem_def Let_def)

lemma apply_plugin_decides:
  assumes "getargspec (ctx_callback ctx) = Inr sp"
    and "conf = (case config ctx ''couchdb'' of None \<Rightarrow> Map.empty | Some d \<Rightarrow> d)"
  shows "apply_plugin f ctx st =
         (Inr (if dict_get conf ''keyword'' (keyword (self st)) \<notin> set (args sp)
               then Callback f
               else Wrapper \<lparr>cl_server_name = dict_get conf ''server_name'' (server_name (self st)),
                             cl_db_name = dict_get conf ''db_name'' (db_name (self st)),
                             cl_keyword = dict_get conf ''keyword'' (keyword (self st)),
                             cl_callback = f\<rparr>), st)"
  using assms by (simp add: apply_plugin_def Let_def)

lemma invoke_trace: "trace (snd (invoke f a kwargs st)) = trace st @ [Called]"
  by (simp add: invoke_def split: prod.splits)

lemma invoke_result:
  "fst (invoke f a kwargs st) = fst (call f a kwargs (world st))
   \<and> world (snd (invoke f a kwargs st)) = snd (call f a kwargs (world st))"
  by (simp add: invoke_def split: prod.splits)

lemma setup_loop_result:
  "setup_loop ps st =
   (if \<exists>other. CouchDBPlugin other \<in> set ps \<and> keyword other = keyword (self st)
    then Inl (PluginError ''Found another couchdb plugin with conflicting settings (non-unique keyword).'')
    else Inr (), st)"
  by (induction ps st rule: setup_loop.induct) auto

lemma wrapper_after_connect:
  assumes "couch_Server cl (cl_server_name c) (world st) = (Inr couch, w1)"
    and "couch_contains cl couch (cl_db_name c) w1 = (Inr present, w2)"
    and "st2 = st\<lparr>world := w2,
                  trace := trace st @ [Connect (cl_server_name c), Contains couch (cl_db_name c)]\<rparr>"
  shows "wrapper cl c a kwargs st =
         (case (if \<not> present then create cl couch (cl_db_name c) st2
                else getitem cl couch (cl_db_name c) st2) of
            (Inl e, st3) \<Rightarrow> (Inl e, st3)
          | (Inr db, st3) \<Rightarrow> invoke (cl_callback c) a (kwargs(cl_keyword c \<mapsto> db)) st3)"
  using assms
  by (simp add: wrapper_def get_server_def get_database_def Server_def contains_def Let_def)

lemma Server_self: "self (snd (Server cl url st)) = self st"
  by (simp add: Server_def split: prod.splits)

lemma contains_self: "self (snd (contains cl server name st)) = self st"
  by (simp add: contains_def split: prod.splits)

lemma create_self: "self (snd (create cl server name st)) = self st"
  by (simp add: create_def split: prod.splits)

lemma getitem_self: "self (snd (getitem cl server name st)) = self st"
  by (simp add: getitem_def split: prod.splits)

lemma invoke_self: "self (snd (invoke f a kwargs st)) = self st"
  by (simp add: invoke_def split: prod.splits)

lemma get_server_self: "self (snd (get_server cl sn st)) = self st"
  by (simp add: get_server_def Let_def Server_self)

lemma get_database_self: "self (snd (get_database cl dbn server sn st)) = self st"
proof -
  obtain r st1 where first:
    "(case server of None \<Rightarrow> get_server cl sn st | Some s \<Rightarrow> (Inr s, st)) = (r, st1)"
    by (cases "case server of None \<Rightarrow> get_server cl sn st | Some s \<Rightarrow> (Inr s, st)") blast
  then have st1: "self st1 = self st"
    using get_server_self [of cl sn st] by (cases server) auto
  show ?thesis
  proof (cases r)
    case (Inl e)
    with first st1 show ?thesis by (simp add: get_database_def Let_def)
  next
    case (Inr server')
    let ?dbn = "case dbn of None \<Rightarrow> db_name (self st) | Some d \<Rightarrow> d"
    obtain r2 st2 where second: "contains cl server' ?dbn st1 = (r2, st2)"
      by (cases "contains cl server' ?dbn st1") blast
    then have st2: "self st2 = self st"
      using contains_self [of cl server' ?dbn st1] st1 by simp
    show ?thesis
    proof (cases r2)
      case (Inl e)
      with first second Inr st2 show ?thesis by (simp add: get_database_def Let_def)
    next
      case present: (Inr present)
      with first second Inr st2 show ?thesis
        by (simp add: get_database_def Let_def create_self getitem_self)
    qed
  qed
qed

lemma setup_loop_self: "self (snd (setup_loop ps st)) = self st"
  by (simp add: setup_loop_result)

lemma wrapper_self: "self (snd (wrapper cl c a kwargs st)) = self st"
proof -
  obtain r st1 where first: "get_server cl (Some (cl_server_name c)) st = (r, st1)"
    by (cases "get_server cl (Some (cl_server_name c)) st") blast
  then have st1: "self st1 = self st"
    using get_server_self [of cl "Some (cl_server_name c)" st] by simp
  show ?thesis
  proof (cases r)
    case (Inl e)
    with first st1 show ?thesis by (simp add: wrapper_def)
  next
    case (Inr couch)
    obtain r2 st2 where second:
      "get_database cl (Some (cl_db_name c)) (Some couch) None st1 = (r2, st2)"
      by (cases "get_database cl (Some (cl_db_name c)) (Some couch) None st1") blast
    then have st2: "self st2 = self st"
      using get_database_self [of cl "Some (cl_db_name c)" "Some couch" None st1] st1 by simp
    from first second Inr st2 show ?thesis
      by (cases r2) (simp_all add: wrapper_def invoke_self)
  qed
qed

lemma apply_plugin_self: "self (snd (apply_plugin f ctx st)) = self st"
  by (simp add: apply_plugin_def Let_def split: sum.splits)

section \<open>Theorems\<close>

text \<open>
  C1. Let the parameter names of \<^verbatim>\<open>context.callback\<close> contain the effective keyword
  \<open>kw\<close> (the route's \<^verbatim>\<open>keyword\<close> entry, or else the plugin's). Then \<^verbatim>\<open>apply\<close> returns a
  callable, and every call of it in which the client's operations succeed performs one
  connect to the effective server, then one membership test of the effective database
  name on the handle that the connect returned, then one create (name absent) or one
  subscript fetch (name present), and nothing else on the client; it then calls the
  callback that \<^verbatim>\<open>apply\<close> was given, once, with the resolved handle stored under \<open>kw\<close>
  in the keyword arguments, in place of whatever the caller had put there.
\<close>

theorem wrapper_resolves_once_and_injects:
  assumes "getargspec (ctx_callback ctx) = Inr sp"
    and "conf = (case config ctx ''couchdb'' of None \<Rightarrow> Map.empty | Some d \<Rightarrow> d)"
    and "sn = dict_get conf ''server_name'' (server_name (self st0))"
    and "dbn = dict_get conf ''db_name'' (db_name (self st0))"
    and "kw = dict_get conf ''keyword'' (keyword (self st0))"
    and "kw \<in> set (args sp)"
    and "couch_Server cl sn (world st) = (Inr srv, w1)"
    and "couch_contains cl srv dbn w1 = (Inr present, w2)"
    and "(if present then couch_getitem cl srv dbn w2 else couch_create cl srv dbn w2)
         = (Inr db, w3)"
  shows "\<exists>rc. apply_plugin f ctx st0 = (Inr rc, st0)
           \<and> call_route cl rc a kwargs st =
               invoke f a (kwargs(kw \<mapsto> db))
                 (st\<lparr>world := w3,
                     trace := trace st @
                       [Connect sn, Contains srv dbn,
                        if present then GetItem srv dbn else Create srv dbn]\<rparr>)
           \<and> (kwargs(kw \<mapsto> db)) kw = Some db
           \<and> trace (snd (call_route cl rc a kwargs st)) =
               trace st @
                 [Connect sn, Contains srv dbn,
                  if present then GetItem srv dbn else Create srv dbn, Called]"
proof -
  let ?c = "\<lparr>cl_server_name = sn, cl_db_name = dbn, cl_keyword = kw, cl_callback = f\<rparr>"
  have applied: "apply_plugin f ctx st0 = (Inr (Wrapper ?c), st0)"
    using assms(3-6) apply_plugin_decides [OF assms(1,2), of f st0] by simp
  have run: "call_route cl (Wrapper ?c) a kwargs st =
             invoke f a (kwargs(kw \<mapsto> db))
               (st\<lparr>world := w3,
                   trace := trace st @
                     [Connect sn, Contains srv dbn,
                      if present then GetItem srv dbn else Create srv dbn]\<rparr>)"
    using wrapper_resolved [of ?c sn dbn cl st srv w1 present w2 db w3 a kwargs] assms(7-9)
    by simp
  have "trace (snd (call_route cl (Wrapper ?c) a kwargs st)) =
        trace st @
          [Connect sn, Contains srv dbn,
           if present then GetItem srv dbn else Create srv dbn, Called]"
    unfolding run by (simp add: invoke_trace)
  with applied run show ?thesis by simp
qed

theorem wrapper_resolves_once_and_injects_witness:
  "getargspec (ctx_callback \<lparr>config = Map.empty, ctx_callback = show_db\<rparr>)
     = Inr \<lparr>args = [''item'', ''db''], varargs = None, varkw = None\<rparr>
   \<and> ''db'' \<in> set (args \<lparr>args = [''item'', ''db''], varargs = None, varkw = None\<rparr>)
   \<and> couch_Server example_client ''http://localhost:5984'' (world example_state)
       = (Inr ''http://localhost:5984'', [])
   \<and> couch_contains example_client ''http://localhost:5984'' ''my_db'' []
       = (Inr False, [])
   \<and> couch_create example_client ''http://localhost:5984'' ''my_db'' []
       = (Inr ''http://localhost:5984/my_db'', [(''http://localhost:5984'', ''my_db'')])
   \<and> apply_plugin show_db \<lparr>config = Map.empty, ctx_callback = show_db\<rparr> example_state
       = (Inr (Wrapper example_closure), example_state)
   \<and> call_route example_client (Wrapper example_closure) [''42''] [''db'' \<mapsto> ''mine'']
         example_state
       = (Inr ''http://localhost:5984/my_db:42'',
          \<lparr>self = example_plugin,
           world = [(''http://localhost:5984'', ''my_db'')],
           trace = [Connect ''http://localhost:5984'',
                    Contains ''http://localhost:5984'' ''my_db'',
                    Create ''http://localhost:5984'' ''my_db'', Called]\<rparr>)"
proof -
  let ?ctx = "\<lparr>config = Map.empty, ctx_callback = show_db\<rparr>"
  let ?sp = "\<lparr>args = [''item'', ''db''], varargs = None, varkw = None\<rparr>"
  let ?url = "''http://localhost:5984''"
  have h1: "getargspec (ctx_callback ?ctx) = Inr ?sp"
    by (simp add: getargspec_def show_db_def)
  have h2: "Map.empty = (case config ?ctx ''couchdb'' of None \<Rightarrow> Map.empty | Some d \<Rightarrow> d)"
    by simp
  have h3: "?url = dict_get Map.empty ''server_name'' (server_name (self example_state))"
    by (simp add: dict_get_def example_state_def example_plugin_def)
  have h4: "''my_db'' = dict_get Map.empty ''db_name'' (db_name (self example_state))"
    by (simp add: dict_get_def example_state_def example_plugin_def)
  have h5: "''db'' = dict_get Map.empty ''keyword'' (keyword (self example_state))"
    by (simp add: dict_get_def example_state_def example_plugin_def)
  have h6: "''db'' \<in> set (args ?sp)"
    by simp
  have h7: "couch_Server example_client ?url (world example_state) = (Inr ?url, [])"
    by (simp add: example_client_def example_state_def)
  have h8: "couch_contains example_client ?url ''my_db'' [] = (Inr False, [])"
    by (simp add: example_client_def)
  have h9': "couch_create example_client ?url ''my_db'' []
             = (Inr ''http://localhost:5984/my_db'', [(?url, ''my_db'')])"
    by (simp add: example_client_def)
  then have h9: "(if False then couch_getitem example_client ?url ''my_db'' []
                  else couch_create example_client ?url ''my_db'' [])
                 = (Inr ''http://localhost:5984/my_db'', [(?url, ''my_db'')])"
    by simp
  obtain rc where
    applied: "apply_plugin show_db ?ctx example_state = (Inr rc, example_state)" and
    run: "call_route example_client rc [''42''] [''db'' \<mapsto> ''mine''] example_state =
          invoke show_db [''42''] ([''db'' \<mapsto> ''mine''](''db'' \<mapsto> ''http://localhost:5984/my_db''))
            (example_state\<lparr>world := [(?url, ''my_db'')],
               trace := trace example_state @
                 [Connect ?url, Contains ?url ''my_db'',
                  if False then GetItem ?url ''my_db'' else Create ?url ''my_db'']\<rparr>)"
    using wrapper_resolves_once_and_injects
      [OF h1 h2 h3 h4 h5 h6 h7 h8 h9, of show_db "[''42'']" "[''db'' \<mapsto> ''mine'']"]
    by blast
  have made: "apply_plugin show_db ?ctx example_state
              = (Inr (Wrapper example_closure), example_state)"
    using apply_plugin_decides [OF h1 h2, of show_db example_state]
    by (simp add: dict_get_def example_state_def example_plugin_def example_closure_def)
  with applied have rc: "rc = Wrapper example_closure"
    by simp
  have "call_route example_client (Wrapper example_closure) [''42''] [''db'' \<mapsto> ''mine'']
          example_state
        = (Inr ''http://localhost:5984/my_db:42'',
           \<lparr>self = example_plugin, world = [(?url, ''my_db'')],
            trace = [Connect ?url, Contains ?url ''my_db'', Create ?url ''my_db'', Called]\<rparr>)"
    using run unfolding rc by (simp add: invoke_def show_db_def example_state_def)
  with made h1 h6 h7 h8 h9' show ?thesis by blast
qed

text \<open>
  C2. Let the parameter names of \<^verbatim>\<open>context.callback\<close> not contain the effective
  keyword. Then \<^verbatim>\<open>apply\<close> returns the very callback it was given and changes nothing;
  a request through the route is a call of that callback with the caller's arguments,
  its result and its effect on the world are the callback's own, and no operation of the
  client is performed by the plugin: the only event is the call of the callback.
\<close>

theorem apply_returns_callback_itself:
  assumes "getargspec (ctx_callback ctx) = Inr sp"
    and "conf = (case config ctx ''couchdb'' of None \<Rightarrow> Map.empty | Some d \<Rightarrow> d)"
    and "dict_get conf ''keyword'' (keyword (self st0)) \<notin> set (args sp)"
  shows "apply_plugin f ctx st0 = (Inr (Callback f), st0)
         \<and> fst (call_route cl (Callback f) a kwargs st) = fst (call f a kwargs (world st))
         \<and> world (snd (call_route cl (Callback f) a kwargs st))
             = snd (call f a kwargs (world st))
         \<and> trace (snd (call_route cl (Callback f) a kwargs st)) = trace st @ [Called]"
  using assms(3) apply_plugin_decides [OF assms(1,2), of f st0]
  by (simp add: invoke_trace invoke_result)

theorem apply_returns_callback_itself_witness:
  "getargspec (ctx_callback \<lparr>config = Map.empty, ctx_callback = show_item\<rparr>)
     = Inr \<lparr>args = [''item''], varargs = None, varkw = None\<rparr>
   \<and> ''db'' \<notin> set [''item'']
   \<and> apply_plugin show_item \<lparr>config = Map.empty, ctx_callback = show_item\<rparr> example_state
       = (Inr (Callback show_item), example_state)
   \<and> call_route example_client (Callback show_item) [''42''] Map.empty example_state
       = (Inr ''42'', \<lparr>self = example_plugin, world = [], trace = [Called]\<rparr>)"
  using apply_returns_callback_itself
    [where ctx = "\<lparr>config = Map.empty, ctx_callback = show_item\<rparr>"
       and sp = "\<lparr>args = [''item''], varargs = None, varkw = None\<rparr>"
       and conf = Map.empty and ?st0.0 = example_state and f = show_item
       and cl = example_client and a = "[''42'']" and kwargs = Map.empty
       and st = example_state]
  by (simp add: getargspec_def show_item_def example_state_def example_plugin_def
        dict_get_def invoke_def)

text \<open>
  C3. \<^verbatim>\<open>setup\<close> raises \<^verbatim>\<open>PluginError\<close> exactly when some plugin already in
  \<^verbatim>\<open>app.plugins\<close> is an instance of \<^verbatim>\<open>CouchDBPlugin\<close> whose keyword equals this
  plugin's keyword; in every other case (no plugin installed, only instances with other
  keywords, only plugins of other classes) it returns normally. It changes nothing in
  either case.
\<close>

theorem setup_raises_iff_keyword_taken:
  "setup_plugin a st =
   (if \<exists>other. CouchDBPlugin other \<in> set (plugins a) \<and> keyword other = keyword (self st)
    then Inl (PluginError ''Found another couchdb plugin with conflicting settings (non-unique keyword).'')
    else Inr (), st)"
  by (simp add: setup_plugin_def setup_loop_result)

theorem setup_raises_iff_keyword_taken_witness:
  "setup_plugin \<lparr>plugins = []\<rparr> example_state = (Inr (), example_state)
   \<and> setup_plugin
        \<lparr>plugins = [OtherPlugin ''sqlite'',
                    CouchDBPlugin \<lparr>server_name = '''', db_name = ''logs'', keyword = ''logdb''\<rparr>]\<rparr>
        example_state = (Inr (), example_state)
   \<and> setup_plugin
        \<lparr>plugins = [OtherPlugin ''sqlite'',
                    CouchDBPlugin \<lparr>server_name = '''', db_name = ''logs'', keyword = ''db''\<rparr>]\<rparr>
        example_state
       = (Inl (PluginError ''Found another couchdb plugin with conflicting settings (non-unique keyword).''),
          example_state)"
  using setup_raises_iff_keyword_taken [of "\<lparr>plugins = []\<rparr>" example_state]
    setup_raises_iff_keyword_taken
      [of "\<lparr>plugins = [OtherPlugin ''sqlite'',
                    CouchDBPlugin \<lparr>server_name = '''', db_name = ''logs'', keyword = ''logdb''\<rparr>]\<rparr>"
          example_state]
    setup_raises_iff_keyword_taken
      [of "\<lparr>plugins = [OtherPlugin ''sqlite'',
                    CouchDBPlugin \<lparr>server_name = '''', db_name = ''logs'', keyword = ''db''\<rparr>]\<rparr>"
          example_state]
  by (simp add: example_state_def example_plugin_def)

text \<open>
  C4. In a call of the wrapper, once the connect has returned a server handle and the
  membership test of the database name has returned: if the name is absent the wrapper
  creates the database, and the handle that \<^verbatim>\<open>create\<close> returns is the one stored
  under the keyword for the callback; if the name is present the wrapper fetches the
  database by subscript, and the handle that the fetch returns is the one stored under
  the keyword for the callback.
\<close>

theorem wrapper_creates_absent_fetches_present:
  assumes "couch_Server cl (cl_server_name c) (world st) = (Inr couch, w1)"
    and "couch_contains cl couch (cl_db_name c) w1 = (Inr present, w2)"
    and "st2 = st\<lparr>world := w2,
                  trace := trace st @ [Connect (cl_server_name c), Contains couch (cl_db_name c)]\<rparr>"
  shows "(\<not> present \<longrightarrow>
            (\<forall>db st3. create cl couch (cl_db_name c) st2 = (Inr db, st3) \<longrightarrow>
               wrapper cl c a kwargs st =
               invoke (cl_callback c) a (kwargs(cl_keyword c \<mapsto> db)) st3
               \<and> trace st3 = trace st2 @ [Create couch (cl_db_name c)]))
         \<and> (present \<longrightarrow>
            (\<forall>db st3. getitem cl couch (cl_db_name c) st2 = (Inr db, st3) \<longrightarrow>
               wrapper cl c a kwargs st =
               invoke (cl_callback c) a (kwargs(cl_keyword c \<mapsto> db)) st3
               \<and> trace st3 = trace st2 @ [GetItem couch (cl_db_name c)]))"
  using wrapper_after_connect [OF assms, of a kwargs]
  by (auto simp: create_def getitem_def split: prod.splits)

theorem wrapper_creates_absent_fetches_present_witness:
  "couch_contains example_client ''http://localhost:5984'' ''my_db'' [] = (Inr False, [])
   \<and> wrapper example_client example_closure [''42''] Map.empty example_state
       = (Inr ''http://localhost:5984/my_db:42'',
          \<lparr>self = example_plugin, world = [(''http://localhost:5984'', ''my_db'')],
           trace = [Connect ''http://localhost:5984'',
                    Contains ''http://localhost:5984'' ''my_db'',
                    Create ''http://localhost:5984'' ''my_db'', Called]\<rparr>)
   \<and> couch_contains example_client ''http://localhost:5984'' ''my_db''
         [(''http://localhost:5984'', ''my_db'')]
       = (Inr True, [(''http://localhost:5984'', ''my_db'')])
   \<and> wrapper example_client example_closure [''42''] Map.empty
         (example_state\<lparr>world := [(''http://localhost:5984'', ''my_db'')]\<rparr>)
       = (Inr ''http://localhost:5984/my_db:42'',
          \<lparr>self = example_plugin, world = [(''http://localhost:5984'', ''my_db'')],
           trace = [Connect ''http://localhost:5984'',
                    Contains ''http://localhost:5984'' ''my_db'',
                    GetItem ''http://localhost:5984'' ''my_db'', Called]\<rparr>)"
proof -
  let ?url = "''http://localhost:5984''"
  let ?there = "example_state\<lparr>world := [(?url, ''my_db'')]\<rparr>"
  have sn: "cl_server_name example_closure = ?url" and dbn: "cl_db_name example_closure = ''my_db''"
    by (simp_all add: example_closure_def)
  have connect0: "couch_Server example_client (cl_server_name example_closure) (world example_state)
                  = (Inr ?url, [])"
    by (simp add: example_client_def example_state_def sn)
  have absent: "couch_contains example_client ?url (cl_db_name example_closure) [] = (Inr False, [])"
    by (simp add: example_client_def dbn)
  have connect1: "couch_Server example_client (cl_server_name example_closure) (world ?there)
                  = (Inr ?url, [(?url, ''my_db'')])"
    by (simp add: example_client_def sn)
  have there: "couch_contains example_client ?url (cl_db_name example_closure) [(?url, ''my_db'')]
               = (Inr True, [(?url, ''my_db'')])"
    by (simp add: example_client_def dbn)
  have "wrapper example_client example_closure [''42''] Map.empty example_state
        = (Inr ''http://localhost:5984/my_db:42'',
           \<lparr>self = example_plugin, world = [(?url, ''my_db'')],
            trace = [Connect ?url, Contains ?url ''my_db'', Create ?url ''my_db'', Called]\<rparr>)"
    using wrapper_creates_absent_fetches_present
      [OF connect0 absent refl, of "[''42'']" Map.empty]
    by (simp add: create_def invoke_def example_client_def example_closure_def
          example_state_def show_db_def)
  moreover
  have "wrapper example_client example_closure [''42''] Map.empty ?there
        = (Inr ''http://localhost:5984/my_db:42'',
           \<lparr>self = example_plugin, world = [(?url, ''my_db'')],
            trace = [Connect ?url, Contains ?url ''my_db'', GetItem ?url ''my_db'', Called]\<rparr>)"
    using wrapper_creates_absent_fetches_present
      [OF connect1 there refl, of "[''42'']" Map.empty]
    by (simp add: getitem_def invoke_def example_client_def example_closure_def
          example_state_def show_db_def)
  ultimately show ?thesis
    using absent there by (simp add: dbn)
qed

text \<open>
  C5. When the route's configuration has a \<^verbatim>\<open>'couchdb'\<close> dictionary, each of
  \<^verbatim>\<open>server_name\<close>, \<^verbatim>\<open>db_name\<close> and \<^verbatim>\<open>keyword\<close> is that dictionary's entry when
  it has one and the plugin's attribute otherwise, each on its own. The keyword so
  obtained is the one looked up in the parameter names of \<^verbatim>\<open>context.callback\<close>, and
  the wrapper that \<^verbatim>\<open>apply\<close> returns connects to the server so obtained, resolves the
  database name so obtained, and stores the handle under the keyword so obtained.
\<close>

theorem route_config_overrides_each_field:
  assumes "config ctx ''couchdb'' = Some conf"
    and "getargspec (ctx_callback ctx) = Inr sp"
    and "sn = (case conf ''server_name'' of None \<Rightarrow> server_name (self st0) | Some v \<Rightarrow> v)"
    and "dbn = (case conf ''db_name'' of None \<Rightarrow> db_name (self st0) | Some v \<Rightarrow> v)"
    and "kw = (case conf ''keyword'' of None \<Rightarrow> keyword (self st0) | Some v \<Rightarrow> v)"
    and "c = \<lparr>cl_server_name = sn, cl_db_name = dbn, cl_keyword = kw, cl_callback = f\<rparr>"
  shows "apply_plugin f ctx st0 =
           (Inr (if kw \<in> set (args sp) then Wrapper c else Callback f), st0)
         \<and> (\<forall>couch st1 db st2.
               get_server cl (Some sn) st = (Inr couch, st1) \<longrightarrow>
               get_database cl (Some dbn) (Some couch) None st1 = (Inr db, st2) \<longrightarrow>
               call_route cl (Wrapper c) a kwargs st = invoke f a (kwargs(kw \<mapsto> db)) st2)"
proof -
  have conf: "conf = (case config ctx ''couchdb'' of None \<Rightarrow> Map.empty | Some d \<Rightarrow> d)"
    using assms(1) by simp
  have "apply_plugin f ctx st0 =
          (Inr (if kw \<in> set (args sp) then Wrapper c else Callback f), st0)"
    using apply_plugin_decides [OF assms(2) conf, of f st0] assms(3-6)
    by (simp add: dict_get_def)
  moreover
  have "call_route cl (Wrapper c) a kwargs st = invoke f a (kwargs(kw \<mapsto> db)) st2"
    if "get_server cl (Some sn) st = (Inr couch, st1)"
      and "get_database cl (Some dbn) (Some couch) None st1 = (Inr db, st2)"
    for couch st1 db st2
    using that assms(6) by (simp add: wrapper_def)
  ultimately show ?thesis by blast
qed

theorem route_config_overrides_each_field_witness:
  "apply_plugin list_docs
     \<lparr>config = [''couchdb'' \<mapsto> [''keyword'' \<mapsto> ''database'']], ctx_callback = list_docs\<rparr>
     example_state
   = (Inr (Wrapper \<lparr>cl_server_name = ''http://localhost:5984'', cl_db_name = ''my_db'',
                    cl_keyword = ''database'', cl_callback = list_docs\<rparr>), example_state)
   \<and> apply_plugin show_db
       \<lparr>config = [''couchdb'' \<mapsto> [''keyword'' \<mapsto> ''database'']], ctx_callback = show_db\<rparr>
       example_state
     = (Inr (Callback show_db), example_state)
   \<and> call_route example_client
       (Wrapper \<lparr>cl_server_name = ''http://localhost:5984'', cl_db_name = ''my_db'',
                 cl_keyword = ''database'', cl_callback = list_docs\<rparr>)
       [] Map.empty example_state
     = (Inr ''http://localhost:5984/my_db/_all_docs'',
        \<lparr>self = example_plugin, world = [(''http://localhost:5984'', ''my_db'')],
         trace = [Connect ''http://localhost:5984'',
                  Contains ''http://localhost:5984'' ''my_db'',
                  Create ''http://localhost:5984'' ''my_db'', Called]\<rparr>)"
proof -
  let ?url = "''http://localhost:5984''"
  let ?conf = "[''keyword'' \<mapsto> ''database'']"
  let ?c = "\<lparr>cl_server_name = ?url, cl_db_name = ''my_db'',
            cl_keyword = ''database'', cl_callback = list_docs\<rparr>"
  let ?c' = "\<lparr>cl_server_name = ?url, cl_db_name = ''my_db'',
            cl_keyword = ''database'', cl_callback = show_db\<rparr>"
  let ?st1 = "example_state\<lparr>world := [], trace := [Connect ?url]\<rparr>"
  let ?st2 = "example_state\<lparr>world := [(?url, ''my_db'')],
                trace := [Connect ?url, Contains ?url ''my_db'', Create ?url ''my_db'']\<rparr>"
  have sn: "?url = (case ?conf ''server_name'' of None \<Rightarrow> server_name (self example_state) | Some v \<Rightarrow> v)"
    by (simp add: example_state_def example_plugin_def)
  have dbn: "''my_db'' = (case ?conf ''db_name'' of None \<Rightarrow> db_name (self example_state) | Some v \<Rightarrow> v)"
    by (simp add: example_state_def example_plugin_def)
  have kw: "''database'' = (case ?conf ''keyword'' of None \<Rightarrow> keyword (self example_state) | Some v \<Rightarrow> v)"
    by simp
  have spec1: "getargspec (ctx_callback \<lparr>config = [''couchdb'' \<mapsto> ?conf], ctx_callback = list_docs\<rparr>)
               = Inr \<lparr>args = [''database''], varargs = None, varkw = None\<rparr>"
    by (simp add: getargspec_def list_docs_def)
  have spec2: "getargspec (ctx_callback \<lparr>config = [''couchdb'' \<mapsto> ?conf], ctx_callback = show_db\<rparr>)
               = Inr \<lparr>args = [''item'', ''db''], varargs = None, varkw = None\<rparr>"
    by (simp add: getargspec_def show_db_def)
  have conf1: "config \<lparr>config = [''couchdb'' \<mapsto> ?conf], ctx_callback = list_docs\<rparr> ''couchdb''
               = Some ?conf"
    by simp
  have conf2: "config \<lparr>config = [''couchdb'' \<mapsto> ?conf], ctx_callback = show_db\<rparr> ''couchdb''
               = Some ?conf"
    by simp
  have connect: "get_server example_client (Some ?url) example_state = (Inr ?url, ?st1)"
    by (simp add: get_server_given Server_def example_client_def example_state_def)
  have resolve: "get_database example_client (Some ''my_db'') (Some ?url) None ?st1
                 = (Inr ''http://localhost:5984/my_db'', ?st2)"
    by (simp add: get_database_def contains_def create_def example_client_def
          example_state_def Let_def)
  note first = route_config_overrides_each_field
    [OF conf1 spec1 sn dbn kw refl, where cl = example_client and st = example_state
       and a = "[]" and kwargs = Map.empty]
  note second = route_config_overrides_each_field
    [OF conf2 spec2 sn dbn kw refl, where cl = example_client and st = example_state
       and a = "[]" and kwargs = Map.empty]
  have "apply_plugin list_docs
          \<lparr>config = [''couchdb'' \<mapsto> ?conf], ctx_callback = list_docs\<rparr> example_state
        = (Inr (Wrapper ?c), example_state)"
    using first by simp
  moreover
  have "apply_plugin show_db
          \<lparr>config = [''couchdb'' \<mapsto> ?conf], ctx_callback = show_db\<rparr> example_state
        = (Inr (Callback show_db), example_state)"
    using second by simp
  moreover
  have "call_route example_client (Wrapper ?c) [] Map.empty example_state
        = invoke list_docs [] [''database'' \<mapsto> ''http://localhost:5984/my_db''] ?st2"
    using first connect resolve by blast
  then have "call_route example_client (Wrapper ?c) [] Map.empty example_state
        = (Inr ''http://localhost:5984/my_db/_all_docs'',
           \<lparr>self = example_plugin, world = [(?url, ''my_db'')],
            trace = [Connect ?url, Contains ?url ''my_db'', Create ?url ''my_db'', Called]\<rparr>)"
    by (simp add: invoke_def list_docs_def example_state_def)
  ultimately show ?thesis by blast
qed

text \<open>
  C6. In a call of the wrapper in which the database is resolved, the callback is
  called with the caller's positional arguments as they are and with keyword arguments
  that agree with the caller's on every key but the injection keyword, which holds the
  handle; what the wrapper returns (a value or an exception) is what the callback
  returned.
\<close>

theorem wrapper_passes_arguments_and_result_through:
  assumes "get_server cl (Some (cl_server_name c)) st = (Inr couch, st1)"
    and "get_database cl (Some (cl_db_name c)) (Some couch) None st1 = (Inr db, st2)"
  shows "\<exists>kwargs'.
           (\<forall>k. k \<noteq> cl_keyword c \<longrightarrow> kwargs' k = kwargs k)
           \<and> kwargs' (cl_keyword c) = Some db
           \<and> wrapper cl c a kwargs st = invoke (cl_callback c) a kwargs' st2
           \<and> fst (wrapper cl c a kwargs st) = fst (call (cl_callback c) a kwargs' (world st2))"
proof -
  let ?kwargs' = "kwargs(cl_keyword c \<mapsto> db)"
  have "wrapper cl c a kwargs st = invoke (cl_callback c) a ?kwargs' st2"
    using assms by (simp add: wrapper_def)
  moreover from this
  have "fst (wrapper cl c a kwargs st) = fst (call (cl_callback c) a ?kwargs' (world st2))"
    by (simp add: invoke_result)
  moreover have "\<forall>k. k \<noteq> cl_keyword c \<longrightarrow> ?kwargs' k = kwargs k"
    by simp
  moreover have "?kwargs' (cl_keyword c) = Some db"
    by simp
  ultimately show ?thesis by blast
qed

theorem wrapper_passes_arguments_and_result_through_witness:
  "get_server example_client (Some ''http://localhost:5984'') example_state
     = (Inr ''http://localhost:5984'',
        example_state\<lparr>world := [], trace := [Connect ''http://localhost:5984'']\<rparr>)
   \<and> wrapper example_client
       \<lparr>cl_server_name = ''http://localhost:5984'', cl_db_name = ''my_db'',
        cl_keyword = ''db'', cl_callback = show_page\<rparr>
       [''42''] [''page'' \<mapsto> ''3'', ''db'' \<mapsto> ''mine''] example_state
     = (Inr ''http://localhost:5984/my_db:42?page=3'',
        \<lparr>self = example_plugin, world = [(''http://localhost:5984'', ''my_db'')],
         trace = [Connect ''http://localhost:5984'',
                  Contains ''http://localhost:5984'' ''my_db'',
                  Create ''http://localhost:5984'' ''my_db'', Called]\<rparr>)
   \<and> fst (call show_page [''42'']
            [''page'' \<mapsto> ''3'', ''db'' \<mapsto> ''http://localhost:5984/my_db'']
            [(''http://localhost:5984'', ''my_db'')])
     = Inr ''http://localhost:5984/my_db:42?page=3''"
proof -
  let ?url = "''http://localhost:5984''"
  let ?c = "\<lparr>cl_server_name = ?url, cl_db_name = ''my_db'',
            cl_keyword = ''db'', cl_callback = show_page\<rparr>"
  let ?st1 = "example_state\<lparr>world := [], trace := [Connect ?url]\<rparr>"
  let ?st2 = "example_state\<lparr>world := [(?url, ''my_db'')],
                trace := [Connect ?url, Contains ?url ''my_db'', Create ?url ''my_db'']\<rparr>"
  have connect: "get_server example_client (Some ?url) example_state = (Inr ?url, ?st1)"
    by (simp add: get_server_given Server_def example_client_def example_state_def)
  then have connect': "get_server example_client (Some (cl_server_name ?c)) example_state
                       = (Inr ?url, ?st1)"
    by simp
  have resolve: "get_database example_client (Some (cl_db_name ?c)) (Some ?url) None ?st1
                 = (Inr ''http://localhost:5984/my_db'', ?st2)"
    by (simp add: get_database_def contains_def create_def example_client_def
          example_state_def Let_def)
  obtain kwargs' where
    rest: "\<forall>k. k \<noteq> cl_keyword ?c \<longrightarrow> kwargs' k = [''page'' \<mapsto> ''3'', ''db'' \<mapsto> ''mine''] k" and
    inj: "kwargs' (cl_keyword ?c) = Some ''http://localhost:5984/my_db''" and
    run: "wrapper example_client ?c [''42''] [''page'' \<mapsto> ''3'', ''db'' \<mapsto> ''mine''] example_state
          = invoke (cl_callback ?c) [''42''] kwargs' ?st2"
    using wrapper_passes_arguments_and_result_through
      [OF connect' resolve, where kwargs = "[''page'' \<mapsto> ''3'', ''db'' \<mapsto> ''mine'']"
       and a = "[''42'']"]
    by blast
  have "kwargs' = [''page'' \<mapsto> ''3'', ''db'' \<mapsto> ''http://localhost:5984/my_db'']"
  proof
    fix k
    show "kwargs' k = [''page'' \<mapsto> ''3'', ''db'' \<mapsto> ''http://localhost:5984/my_db''] k"
      using rest [rule_format, of k] inj by (cases "k = ''db''") simp_all
  qed
  with run have "wrapper example_client ?c [''42''] [''page'' \<mapsto> ''3'', ''db'' \<mapsto> ''mine'']
                   example_state
                 = (Inr ''http://localhost:5984/my_db:42?page=3'',
                    \<lparr>self = example_plugin, world = [(?url, ''my_db'')],
                     trace = [Connect ?url, Contains ?url ''my_db'', Create ?url ''my_db'',
                              Called]\<rparr>)"
    by (simp add: invoke_def show_page_def example_state_def)
  moreover
  have "fst (call show_page [''42'']
              [''page'' \<mapsto> ''3'', ''db'' \<mapsto> ''http://localhost:5984/my_db'']
              [(?url, ''my_db'')])
        = Inr ''http://localhost:5984/my_db:42?page=3''"
    by (simp add: show_page_def)
  ultimately show ?thesis using connect by blast
qed

text \<open>
  C7. If the connect raises \<open>e\<close>, or the connect succeeds and the membership test
  raises \<open>e\<close>, or both succeed and the create (name absent) or the fetch (name
  present) raises \<open>e\<close>, then the wrapper raises that same \<open>e\<close>; the events of the
  call are the client operations up to the one that raised, and the callback is not
  called.
\<close>

theorem wrapper_propagates_client_errors:
  assumes "cl_server_name c = sn" and "cl_db_name c = dbn"
  shows "(couch_Server cl sn (world st) = (Inl e, w1) \<longrightarrow>
            wrapper cl c a kwargs st =
            (Inl e, st\<lparr>world := w1, trace := trace st @ [Connect sn]\<rparr>))
         \<and> (couch_Server cl sn (world st) = (Inr srv, w1) \<longrightarrow>
            couch_contains cl srv dbn w1 = (Inl e, w2) \<longrightarrow>
            wrapper cl c a kwargs st =
            (Inl e, st\<lparr>world := w2, trace := trace st @ [Connect sn, Contains srv dbn]\<rparr>))
         \<and> (couch_Server cl sn (world st) = (Inr srv, w1) \<longrightarrow>
            couch_contains cl srv dbn w1 = (Inr False, w2) \<longrightarrow>
            couch_create cl srv dbn w2 = (Inl e, w3) \<longrightarrow>
            wrapper cl c a kwargs st =
            (Inl e, st\<lparr>world := w3,
                      trace := trace st @ [Connect sn, Contains srv dbn, Create srv dbn]\<rparr>))
         \<and> (couch_Server cl sn (world st) = (Inr srv, w1) \<longrightarrow>
            couch_contains cl srv dbn w1 = (Inr True, w2) \<longrightarrow>
            couch_getitem cl srv dbn w2 = (Inl e, w3) \<longrightarrow>
            wrapper cl c a kwargs st =
            (Inl e, st\<lparr>world := w3,
                      trace := trace st @ [Connect sn, Contains srv dbn, GetItem srv dbn]\<rparr>))"
  using assms
  by (simp add: wrapper_def get_server_def get_database_def Server_def contains_def
        create_def getitem_def Let_def)

theorem wrapper_propagates_client_errors_witness:
  "wrapper example_client (example_closure\<lparr>cl_server_name := ''http://down:5984''\<rparr>)
     [''42''] Map.empty example_state
   = (Inl (ClientError ''connection refused''),
      \<lparr>self = example_plugin, world = [], trace = [Connect ''http://down:5984'']\<rparr>)
   \<and> wrapper example_client (example_closure\<lparr>cl_db_name := ''''\<rparr>)
       [''42''] Map.empty example_state
     = (Inl (ClientError ''bad request''),
        \<lparr>self = example_plugin, world = [],
         trace = [Connect ''http://localhost:5984'', Contains ''http://localhost:5984'' '''']\<rparr>)
   \<and> wrapper example_client (example_closure\<lparr>cl_db_name := ''Bad''\<rparr>)
       [''42''] Map.empty example_state
     = (Inl (ClientError ''illegal database name''),
        \<lparr>self = example_plugin, world = [],
         trace = [Connect ''http://localhost:5984'', Contains ''http://localhost:5984'' ''Bad'',
                  Create ''http://localhost:5984'' ''Bad'']\<rparr>)
   \<and> wrapper example_client (example_closure\<lparr>cl_db_name := ''_users''\<rparr>)
       [''42''] Map.empty (example_state\<lparr>world := [(''http://localhost:5984'', ''_users'')]\<rparr>)
     = (Inl (ClientError ''unauthorized''),
        \<lparr>self = example_plugin, world = [(''http://localhost:5984'', ''_users'')],
         trace = [Connect ''http://localhost:5984'', Contains ''http://localhost:5984'' ''_users'',
                  GetItem ''http://localhost:5984'' ''_users'']\<rparr>)"
proof -
  let ?url = "''http://localhost:5984''"
  let ?users = "example_state\<lparr>world := [(?url, ''_users'')]\<rparr>"
  have down: "couch_Server example_client ''http://down:5984'' (world example_state)
              = (Inl (ClientError ''connection refused''), [])"
    by (simp add: example_client_def example_state_def)
  have up: "couch_Server example_client ?url (world example_state) = (Inr ?url, [])"
    by (simp add: example_client_def example_state_def)
  have up': "couch_Server example_client ?url (world ?users) = (Inr ?url, [(?url, ''_users'')])"
    by (simp add: example_client_def)
  have bad_request: "couch_contains example_client ?url '''' []
                     = (Inl (ClientError ''bad request''), [])"
    by (simp add: example_client_def)
  have absent: "couch_contains example_client ?url ''Bad'' [] = (Inr False, [])"
    by (simp add: example_client_def)
  have illegal: "couch_create example_client ?url ''Bad'' []
                 = (Inl (ClientError ''illegal database name''), [])"
    by (simp add: example_client_def)
  have present: "couch_contains example_client ?url ''_users'' [(?url, ''_users'')]
                 = (Inr True, [(?url, ''_users'')])"
    by (simp add: example_client_def)
  have unauthorized: "couch_getitem example_client ?url ''_users'' [(?url, ''_users'')]
                      = (Inl (ClientError ''unauthorized''), [(?url, ''_users'')])"
    by (simp add: example_client_def)
  have "wrapper example_client (example_closure\<lparr>cl_server_name := ''http://down:5984''\<rparr>)
          [''42''] Map.empty example_state
        = (Inl (ClientError ''connection refused''),
           \<lparr>self = example_plugin, world = [], trace = [Connect ''http://down:5984'']\<rparr>)"
    using wrapper_propagates_client_errors
      [where c = "example_closure\<lparr>cl_server_name := ''http://down:5984''\<rparr>"
         and sn = "''http://down:5984''" and dbn = "''my_db''" and cl = example_client
         and st = example_state and e = "ClientError ''connection refused''"
         and ?w1.0 = "[]" and a = "[''42'']" and kwargs = Map.empty]
      down
    by (simp add: example_closure_def example_state_def)
  moreover
  have "wrapper example_client (example_closure\<lparr>cl_db_name := ''''\<rparr>)
          [''42''] Map.empty example_state
        = (Inl (ClientError ''bad request''),
           \<lparr>self = example_plugin, world = [],
            trace = [Connect ?url, Contains ?url '''']\<rparr>)"
    using wrapper_propagates_client_errors
      [where c = "example_closure\<lparr>cl_db_name := ''''\<rparr>"
         and sn = ?url and dbn = "''''" and cl = example_client
         and st = example_state and e = "ClientError ''bad request''" and srv = ?url
         and ?w1.0 = "[]" and ?w2.0 = "[]" and a = "[''42'']" and kwargs = Map.empty]
      up bad_request
    by (simp add: example_closure_def example_state_def)
  moreover
  have "wrapper example_client (example_closure\<lparr>cl_db_name := ''Bad''\<rparr>)
          [''42''] Map.empty example_state
        = (Inl (ClientError ''illegal database name''),
           \<lparr>self = example_plugin, world = [],
            trace = [Connect ?url, Contains ?url ''Bad'', Create ?url ''Bad'']\<rparr>)"
    using wrapper_propagates_client_errors
      [where c = "example_closure\<lparr>cl_db_name := ''Bad''\<rparr>"
         and sn = ?url and dbn = "''Bad''" and cl = example_client
         and st = example_state and e = "ClientError ''illegal database name''" and srv = ?url
         and ?w1.0 = "[]" and ?w2.0 = "[]" and ?w3.0 = "[]" and a = "[''42'']"
         and kwargs = Map.empty]
      up absent illegal
    by (simp add: example_closure_def example_state_def)
  moreover
  have "wrapper example_client (example_closure\<lparr>cl_db_name := ''_users''\<rparr>)
          [''42''] Map.empty ?users
        = (Inl (ClientError ''unauthorized''),
           \<lparr>self = example_plugin, world = [(?url, ''_users'')],
            trace = [Connect ?url, Contains ?url ''_users'', GetItem ?url ''_users'']\<rparr>)"
    using wrapper_propagates_client_errors
      [where c = "example_closure\<lparr>cl_db_name := ''_users''\<rparr>"
         and sn = ?url and dbn = "''_users''" and cl = example_client
         and st = ?users and e = "ClientError ''unauthorized''" and srv = ?url
         and ?w1.0 = "[(?url, ''_users'')]" and ?w2.0 = "[(?url, ''_users'')]"
         and ?w3.0 = "[(?url, ''_users'')]" and a = "[''42'']" and kwargs = Map.empty]
      up' present unauthorized
    by (simp add: example_closure_def example_state_def)
  ultimately show ?thesis by blast
qed

text \<open>
  C8, as the code has it: the constructor rejects no keyword. For every database name,
  whether or not a server name is given, and for every keyword (the empty string and
  strings of blanks included), construction succeeds and the instance holds that
  keyword as given; it holds \<open>''db''\<close> when the keyword is left out.
\<close>

theorem init_stores_any_keyword:
  "init dbn sn kw =
     Inr \<lparr>server_name = (case sn of None \<Rightarrow> '''' | Some s \<Rightarrow> s),
          db_name = dbn,
          keyword = (case kw of None \<Rightarrow> ''db'' | Some k \<Rightarrow> k)\<rparr>
   \<and> (\<forall>k. \<exists>p. init dbn sn (Some k) = Inr p \<and> keyword p = k)
   \<and> (\<exists>p. init dbn sn None = Inr p \<and> keyword p = ''db'')
   \<and> (\<forall>e. init dbn sn kw \<noteq> Inl e)"
  by (simp add: init_def)

text \<open>
  C8, as the claim states it, fails: constructing a plugin with the empty keyword, and
  with a keyword of one blank, raises nothing and stores that keyword.
\<close>

theorem init_rejects_blank_keyword_counterexample:
  "init ''my_db'' (Some ''http://localhost:5984'') (Some '''')
     = Inr \<lparr>server_name = ''http://localhost:5984'', db_name = ''my_db'', keyword = ''''\<rparr>
   \<and> init ''my_db'' (Some ''http://localhost:5984'') (Some '' '')
     = Inr \<lparr>server_name = ''http://localhost:5984'', db_name = ''my_db'', keyword = '' ''\<rparr>"
  by (simp add: init_def)

text \<open>
  C9. No method of the class writes an attribute of the instance after \<^verbatim>\<open>__init__\<close>:
  \<^verbatim>\<open>get_server\<close>, \<^verbatim>\<open>get_database\<close>, \<^verbatim>\<open>setup\<close>, \<^verbatim>\<open>apply\<close>, \<^verbatim>\<open>close\<close>, a call of
  \<^verbatim>\<open>wrapper\<close> and a call of whatever \<^verbatim>\<open>apply\<close> returned each end, whether they return
  or raise, in a state whose plugin instance has the \<^verbatim>\<open>server_name\<close>, \<^verbatim>\<open>db_name\<close> and
  \<^verbatim>\<open>keyword\<close> it had before.
\<close>

theorem plugin_configuration_never_mutated:
  "self (snd (get_server cl sn st)) = self st
   \<and> self (snd (get_database cl dbn server sn st)) = self st
   \<and> self (snd (setup_plugin ap st)) = self st
   \<and> self (snd (apply_plugin f ctx st)) = self st
   \<and> self (snd (close st)) = self st
   \<and> self (snd (wrapper cl c a kwargs st)) = self st
   \<and> self (snd (call_route cl rc a kwargs st)) = self st"
proof -
  have "self (snd (call_route cl rc a kwargs st)) = self st"
    by (cases rc) (simp_all add: invoke_self wrapper_self)
  then show ?thesis
    by (simp add: get_server_self get_database_self setup_plugin_def setup_loop_self
          apply_plugin_self close_def wrapper_self)
qed

theorem plugin_configuration_never_mutated_witness:
  "init ''my_db'' (Some ''http://localhost:5984'') None = Inr example_plugin
   \<and> self example_state = example_plugin
   \<and> self (snd (get_server example_client None example_state)) = example_plugin
   \<and> self (snd (get_database example_client None None None example_state)) = example_plugin
   \<and> self (snd (setup_plugin \<lparr>plugins = [CouchDBPlugin example_plugin]\<rparr> example_state))
       = example_plugin
   \<and> self (snd (apply_plugin show_db \<lparr>config = Map.empty, ctx_callback = show_db\<rparr>
                  example_state)) = example_plugin
   \<and> self (snd (close example_state)) = example_plugin
   \<and> self (snd (wrapper example_client example_closure [''42''] Map.empty example_state))
       = example_plugin
   \<and> self (snd (call_route example_client (Wrapper example_closure) [''42''] Map.empty
                  example_state)) = example_plugin"
  using plugin_configuration_never_mutated
    [where cl = example_client and sn = None and st = example_state and dbn = None
       and server = None and ap = "\<lparr>plugins = [CouchDBPlugin example_plugin]\<rparr>"
       and f = show_db and ctx = "\<lparr>config = Map.empty, ctx_callback = show_db\<rparr>"
       and c = example_closure and a = "[''42'']" and kwargs = Map.empty
       and rc = "Wrapper example_closure"]
  by (simp add: init_def example_plugin_def example_state_def)

text \<open>
  C10. Let \<^verbatim>\<open>context.callback\<close> have a \<^verbatim>\<open>**kwargs\<close> parameter and no formal parameter
  named by the effective keyword. Then \<^verbatim>\<open>apply\<close> returns the callback it was given,
  unwrapped, and a request through the route is a call of that callback with the
  caller's keyword arguments as they are: nothing is injected. The decision reads the
  parameter names of \<^verbatim>\<open>context.callback\<close> only: it is the same for every
  \<^verbatim>\<open>*args\<close> and \<^verbatim>\<open>**kwargs\<close> parameter that function may have and for every
  callback given to \<^verbatim>\<open>apply\<close>.
\<close>

theorem apply_ignores_catch_all_keywords:
  assumes "getargspec (ctx_callback ctx) = Inr sp"
    and "varkw sp = Some kwname"
    and "conf = (case config ctx ''couchdb'' of None \<Rightarrow> Map.empty | Some d \<Rightarrow> d)"
    and "kw = dict_get conf ''keyword'' (keyword (self st0))"
    and "kw \<notin> set (args sp)"
  shows "apply_plugin f ctx st0 = (Inr (Callback f), st0)
         \<and> call_route cl (Callback f) a kwargs st = invoke f a kwargs st
         \<and> (\<forall>g va vk.
               apply_plugin g
                 (ctx\<lparr>ctx_callback := (ctx_callback ctx)\<lparr>spec := Some (sp\<lparr>varargs := va, varkw := vk\<rparr>)\<rparr>\<rparr>)
                 st0
               = (Inr (Callback g), st0))"
proof -
  have "apply_plugin f ctx st0 = (Inr (Callback f), st0)"
    using apply_plugin_decides [OF assms(1,3), of f st0] assms(4,5) by simp
  moreover
  have "apply_plugin g
          (ctx\<lparr>ctx_callback := (ctx_callback ctx)\<lparr>spec := Some (sp\<lparr>varargs := va, varkw := vk\<rparr>)\<rparr>\<rparr>)
          st0
        = (Inr (Callback g), st0)" for g va vk
    using assms(3-5) by (simp add: apply_plugin_def getargspec_def Let_def)
  ultimately show ?thesis by simp
qed

theorem apply_ignores_catch_all_keywords_witness:
  "getargspec (ctx_callback \<lparr>config = Map.empty, ctx_callback = show_any\<rparr>)
     = Inr \<lparr>args = [''item''], varargs = None, varkw = Some ''kw''\<rparr>
   \<and> ''db'' \<notin> set [''item'']
   \<and> apply_plugin show_any \<lparr>config = Map.empty, ctx_callback = show_any\<rparr> example_state
       = (Inr (Callback show_any), example_state)
   \<and> call_route example_client (Callback show_any) [''42''] Map.empty example_state
       = (Inr ''42'', \<lparr>self = example_plugin, world = [], trace = [Called]\<rparr>)
   \<and> call_route example_client (Callback show_any) [''42''] [''db'' \<mapsto> ''mine''] example_state
       = (Inr ''42:mine'', \<lparr>self = example_plugin, world = [], trace = [Called]\<rparr>)"
proof -
  let ?ctx = "\<lparr>config = Map.empty, ctx_callback = show_any\<rparr>"
  let ?sp = "\<lparr>args = [''item''], varargs = None, varkw = Some ''kw''\<rparr>"
  have h1: "getargspec (ctx_callback ?ctx) = Inr ?sp"
    by (simp add: getargspec_def show_any_def)
  have h2: "varkw ?sp = Some ''kw''"
    by simp
  have h3: "Map.empty = (case config ?ctx ''couchdb'' of None \<Rightarrow> Map.empty | Some d \<Rightarrow> d)"
    by simp
  have h4: "''db'' = dict_get Map.empty ''keyword'' (keyword (self example_state))"
    by (simp add: dict_get_def example_state_def example_plugin_def)
  have h5: "''db'' \<notin> set (args ?sp)"
    by simp
  note th = apply_ignores_catch_all_keywords [OF h1 h2 h3 h4 h5, where f = show_any
    and cl = example_client and st = example_state and a = "[''42'']"]
  have "apply_plugin show_any ?ctx example_state = (Inr (Callback show_any), example_state)"
    using th [where kwargs = Map.empty] by blast
  moreover
  have "call_route example_client (Callback show_any) [''42''] Map.empty example_state
        = (Inr ''42'', \<lparr>self = example_plugin, world = [], trace = [Called]\<rparr>)"
    using th [where kwargs = Map.empty]
    by (simp add: invoke_def show_any_def example_state_def)
  moreover
  have "call_route example_client (Callback show_any) [''42''] [''db'' \<mapsto> ''mine'']
          example_state
        = (Inr ''42:mine'', \<lparr>self = example_plugin, world = [], trace = [Called]\<rparr>)"
    using th [where kwargs = "[''db'' \<mapsto> ''mine'']"]
    by (simp add: invoke_def show_any_def example_state_def)
  ultimately show ?thesis using h1 h5 by simp
qed

end
